theory Spec2Isabelle
  imports Complex_Main "HOL-Library.AList" "HOL-Library.Log_Nat"
begin

section \<open>JavaScript values read by the pipeline\<close>

text \<open>
  The pipeline of \<^verbatim>\<open>src/frontend/src/App.tsx\<close> receives the result of
  \<^verbatim>\<open>response.json()\<close>: a JSON value. A JavaScript number is an IEEE 754
  double: either finite or one of NaN, +Infinity, -Infinity. A finite number is
  modelled by the rational it denotes; negative zero is identified with zero.
\<close>

datatype jsnum = Finite rat | NaN | PosInfinity | NegInfinity

subsection \<open>Double arithmetic\<close>

text \<open>
  The result of an arithmetic operation is the exact result rounded to the nearest
  double, ties to the even significand. \<open>floorlog2 a\<close> is the integer part of the
  binary logarithm of a positive \<open>a\<close>.
\<close>

definition floorlog2 :: "rat \<Rightarrow> int" where
  "floorlog2 a = (if 1 \<le> a then bitlen \<lfloor>a\<rfloor> - 1 else - bitlen (\<lceil>1 / a\<rceil> - 1))"

definition roundHalfEven :: "rat \<Rightarrow> int" where
  "roundHalfEven q =
     (let f = \<lfloor>q\<rfloor>; d = q - of_int f
      in if d < 1 / 2 then f else if 1 / 2 < d then f + 1 else if even f then f else f + 1)"

text \<open>
  The exponent of the unit in the last place of a positive \<open>a\<close>: 52 binary places
  below the leading bit, and never below that of the subnormal numbers.
\<close>

definition expo :: "rat \<Rightarrow> int" where
  "expo a = max (floorlog2 a - 52) (- 1074)"

text \<open>A positive \<open>a\<close> rounded to a whole number of units in the last place.\<close>

definition magnitude :: "rat \<Rightarrow> rat" where
  "magnitude a = of_int (roundHalfEven (a / 2 powi expo a)) * 2 powi expo a"

text \<open>Rounding to a double: a magnitude of \<open>2 ^ 1024\<close> or more overflows to infinity.\<close>

definition round64 :: "rat \<Rightarrow> jsnum" where
  "round64 x =
     (if x = 0 then Finite 0
      else if 0 < x
        then (if 2 ^ 1024 \<le> magnitude x then PosInfinity else Finite (magnitude x))
        else (if 2 ^ 1024 \<le> magnitude (- x) then NegInfinity else Finite (- magnitude (- x))))"


text \<open>
  A number as the key of a map whose keys are finite numbers: an infinity or NaN is the
  key of no entry.
\<close>

fun key_of :: "jsnum \<Rightarrow> rat option" where
  "key_of (Finite r) = Some r"
| "key_of _ = None"

subsection \<open>JSON values\<close>

datatype jsval =
    JNull
  | JBool bool
  | JNumber jsnum
  | JString string
  | JArray "jsval list"
  | JObject "(string \<times> jsval) list"

text \<open>What a coercion, or a recursion without end, throws.\<close>

datatype exn = TypeError | SyntaxError | RangeError

text \<open>
  \<^verbatim>\<open>raw?.key\<close> and \<^verbatim>\<open>raw[key]\<close>: the own property of an object, \<open>None\<close>
  for \<^verbatim>\<open>undefined\<close>. On \<^verbatim>\<open>null\<close> the optional chain gives \<^verbatim>\<open>undefined\<close>;
  so does a primitive or an array for every key this program reads (none of them is
  \<^verbatim>\<open>length\<close>, an index or a prototype method).
\<close>

fun getProp :: "jsval \<Rightarrow> string \<Rightarrow> jsval option" where
  "getProp (JObject kvs) key = map_of kvs key"
| "getProp _ key = None"

text \<open>
  The two conversions between strings and numbers of ECMAScript (StringToNumber and
  Number::toString) are not code of this program, and the number of arguments one call
  can take depends on the engine; the model takes the three as parameters.
\<close>

record builtins =
  StringToNumber :: "string \<Rightarrow> jsnum"
  NumberToString :: "jsnum \<Rightarrow> string"
  maxArguments :: nat

fun sequence :: "(exn + 'a) list \<Rightarrow> exn + 'a list" where
  "sequence [] = Inr []"
| "sequence (x # xs) =
     (case x of
        Inl e \<Rightarrow> Inl e
      | Inr v \<Rightarrow> (case sequence xs of Inl e \<Rightarrow> Inl e | Inr vs \<Rightarrow> Inr (v # vs)))"

fun join :: "string list \<Rightarrow> string" where
  "join [] = []"
| "join [s] = s"
| "join (s # t # ss) = s @ '','' @ join (t # ss)"

text \<open>
  \<^verbatim>\<open>String(value)\<close>, ECMAScript's ToString. An array is joined with commas, a
  \<^verbatim>\<open>null\<close> element giving the empty string. An object goes through
  OrdinaryToPrimitive: an own \<^verbatim>\<open>toString\<close> property of a JSON object is never
  callable and hides \<^verbatim>\<open>Object.prototype.toString\<close>, and \<^verbatim>\<open>valueOf\<close>
  returns the object itself, so the conversion throws a TypeError; without that own
  property the result is \<^verbatim>\<open>[object Object]\<close>.
\<close>

fun String_js :: "builtins \<Rightarrow> jsval \<Rightarrow> exn + string" where
  "String_js B JNull = Inr ''null''"
| "String_js B (JBool b) = Inr (if b then ''true'' else ''false'')"
| "String_js B (JNumber n) = Inr (NumberToString B n)"
| "String_js B (JString s) = Inr s"
| "String_js B (JArray xs) =
     (case sequence (map (\<lambda>x. if x = JNull then Inr [] else String_js B x) xs) of
        Inl e \<Rightarrow> Inl e
      | Inr ss \<Rightarrow> Inr (join ss))"
| "String_js B (JObject kvs) =
     (if map_of kvs ''toString'' \<noteq> None then Inl TypeError else Inr ''[object Object]'')"

text \<open>
  \<^verbatim>\<open>Number(value)\<close>, ECMAScript's ToNumber: an array or an object is first
  converted to a primitive, which for JSON values is the string above.
\<close>

fun Number_js :: "builtins \<Rightarrow> jsval \<Rightarrow> exn + jsnum" where
  "Number_js B JNull = Inr (Finite 0)"
| "Number_js B (JBool b) = Inr (Finite (if b then 1 else 0))"
| "Number_js B (JNumber n) = Inr n"
| "Number_js B (JString s) = Inr (StringToNumber B s)"
| "Number_js B v =
     (case String_js B v of Inl e \<Rightarrow> Inl e | Inr s \<Rightarrow> Inr (StringToNumber B s))"

text \<open>\<^verbatim>\<open>!data\<close>: the falsy JSON values.\<close>

fun falsy :: "jsval \<Rightarrow> bool" where
  "falsy JNull = True"
| "falsy (JBool b) = (\<not> b)"
| "falsy (JNumber n) = (n = Finite 0 \<or> n = NaN)"
| "falsy (JString s) = (s = [])"
| "falsy _ = False"

section \<open>Record normalizer\<close>

text \<open>
  \<^verbatim>\<open>NormalizedPerson\<close>: the scalar fields are a record, the node adds
  \<^verbatim>\<open>children\<close>. The field \<^verbatim>\<open>id\<close> is \<open>id_num\<close> here.
\<close>

record PersonFields =
  id_num :: rat
  generation :: "rat option"
  gender :: "jsval option"
  name :: string
  birthDate :: string
  birthPlace :: string
  spouse :: string
  unionDate :: string
  unionPlace :: string
  childrenCount :: string
  deathDate :: string
  deathPlace :: string
  deathAge :: string
  job :: string

datatype NormalizedPerson =
  NormalizedPerson (info: PersonFields) (children: "NormalizedPerson list")

text \<open>
  \<^verbatim>\<open>fieldMap\<close>. A character of a key is its code unit; the three accented letters
  of the French keys are U+00E9 (e acute), U+00E8 (e grave) and U+00C2 (A circumflex).
\<close>

definition fieldMap_name :: "string list" where
  "fieldMap_name = [''Personne'', ''name'']"

definition fieldMap_birthDate :: "string list" where
  "fieldMap_birthDate = [''Date de naissance'', ''birth_date'', ''birthDate'']"

definition fieldMap_birthPlace :: "string list" where
  "fieldMap_birthPlace = [''Lieu de naissance'', ''birth_place'', ''birthPlace'']"

definition fieldMap_spouse :: "string list" where
  "fieldMap_spouse = [''Conjoints'', ''spouse'']"

definition fieldMap_unionDate :: "string list" where
  "fieldMap_unionDate = [''Date de l'union'', ''union_date'', ''unionDate'']"

definition fieldMap_unionPlace :: "string list" where
  "fieldMap_unionPlace = [''Lieu de l'union'', ''union_place'', ''unionPlace'']"

definition fieldMap_childrenCount :: "string list" where
  "fieldMap_childrenCount = [''Nb. enfants'', ''children_count'', ''childrenCount'']"

definition fieldMap_deathDate :: "string list" where
  "fieldMap_deathDate =
     [''Date de d'' @ [CHR 0xE9] @ ''c'' @ [CHR 0xE8] @ ''s'', ''death_date'', ''deathDate'']"

definition fieldMap_deathPlace :: "string list" where
  "fieldMap_deathPlace =
     [''Lieu de d'' @ [CHR 0xE9] @ ''c'' @ [CHR 0xE8] @ ''s'', ''death_place'', ''deathPlace'']"

definition fieldMap_deathAge :: "string list" where
  "fieldMap_deathAge =
     [(CHR 0xC2 # ''ge au d'') @ [CHR 0xE9] @ ''c'' @ [CHR 0xE8] @ ''s'', ''age_at_death'',
      ''deathAge'']"

definition fieldMap_job :: "string list" where
  "fieldMap_job = [''Profession'', ''professions'', ''job'']"

text \<open>
  \<^verbatim>\<open>parseId\<close>: \<open>None\<close> is \<^verbatim>\<open>null\<close>; \<^verbatim>\<open>Number.isFinite\<close> keeps the
  finite numbers.
\<close>

definition parseId :: "builtins \<Rightarrow> jsval option \<Rightarrow> exn + rat option" where
  "parseId B v =
     (case v of
        None \<Rightarrow> Inr None
      | Some JNull \<Rightarrow> Inr None
      | Some x \<Rightarrow>
          (case Number_js B x of
             Inl e \<Rightarrow> Inl e
           | Inr (Finite r) \<Rightarrow> Inr (Some r)
           | Inr _ \<Rightarrow> Inr None))"

fun readField :: "builtins \<Rightarrow> jsval \<Rightarrow> string list \<Rightarrow> exn + string" where
  "readField B raw [] = Inr []"
| "readField B raw (key # keys) =
     (case getProp raw key of
        None \<Rightarrow> readField B raw keys
      | Some JNull \<Rightarrow> readField B raw keys
      | Some candidate \<Rightarrow> String_js B candidate)"

text \<open>\<^verbatim>\<open>a ?? b\<close>: \<open>b\<close> is evaluated only when \<open>a\<close> is \<^verbatim>\<open>null\<close>.\<close>

definition nullish :: "exn + 'a option \<Rightarrow> exn + 'a option \<Rightarrow> exn + 'a option" where
  "nullish a b = (case a of Inl e \<Rightarrow> Inl e | Inr None \<Rightarrow> b | Inr (Some x) \<Rightarrow> Inr (Some x))"

definition ebind :: "exn + 'a \<Rightarrow> ('a \<Rightarrow> exn + 'b) \<Rightarrow> exn + 'b" where
  "ebind x f = (case x of Inl e \<Rightarrow> Inl e | Inr v \<Rightarrow> f v)"


definition parseIds :: "builtins \<Rightarrow> jsval \<Rightarrow> exn + rat option" where
  "parseIds B raw =
     nullish (parseId B (getProp raw ''id''))
       (nullish (parseId B (getProp raw ''ID''))
          (nullish (parseId B (getProp raw ''Id''))
             (nullish (parseId B (getProp raw ''sosa''))
                (parseId B (getProp raw ''Sosa'')))))"

definition normalizePerson :: "builtins \<Rightarrow> jsval \<Rightarrow> exn + NormalizedPerson option" where
  "normalizePerson B raw =
     ebind (parseIds B raw) (\<lambda>i.
       case i of
         None \<Rightarrow> Inr None
       | Some i \<Rightarrow>
           ebind (parseId B (getProp raw ''generation'')) (\<lambda>g.
           ebind (readField B raw fieldMap_name) (\<lambda>f1.
           ebind (readField B raw fieldMap_birthDate) (\<lambda>f2.
           ebind (readField B raw fieldMap_birthPlace) (\<lambda>f3.
           ebind (readField B raw fieldMap_spouse) (\<lambda>f4.
           ebind (readField B raw fieldMap_unionDate) (\<lambda>f5.
           ebind (readField B raw fieldMap_unionPlace) (\<lambda>f6.
           ebind (readField B raw fieldMap_childrenCount) (\<lambda>f7.
           ebind (readField B raw fieldMap_deathDate) (\<lambda>f8.
           ebind (readField B raw fieldMap_deathPlace) (\<lambda>f9.
           ebind (readField B raw fieldMap_deathAge) (\<lambda>f10.
           ebind (readField B raw fieldMap_job) (\<lambda>f11.
             Inr (Some (NormalizedPerson
               \<lparr>id_num = i, generation = g,
                gender = (case getProp raw ''gender'' of
                            None \<Rightarrow> None | Some JNull \<Rightarrow> None | Some x \<Rightarrow> Some x),
                name = f1, birthDate = f2, birthPlace = f3, spouse = f4, unionDate = f5,
                unionPlace = f6, childrenCount = f7, deathDate = f8, deathPlace = f9,
                deathAge = f10, job = f11\<rparr> [])))))))))))))))"

text \<open>\<^verbatim>\<open>.filter(Boolean)\<close> on a list of objects and \<^verbatim>\<open>null\<close>s.\<close>

fun filter_Boolean :: "'a option list \<Rightarrow> 'a list" where
  "filter_Boolean [] = []"
| "filter_Boolean (None # xs) = filter_Boolean xs"
| "filter_Boolean (Some x # xs) = x # filter_Boolean xs"

definition container :: "jsval \<Rightarrow> jsval list" where
  "container data =
     (case data of
        JArray xs \<Rightarrow> xs
      | _ \<Rightarrow>
        (case getProp data ''people'' of
           Some (JArray xs) \<Rightarrow> xs
         | _ \<Rightarrow>
           (case getProp data ''records'' of
              Some (JArray xs) \<Rightarrow> xs
            | _ \<Rightarrow> [data])))"

definition normalizeDataset :: "builtins \<Rightarrow> jsval \<Rightarrow> exn + NormalizedPerson list" where
  "normalizeDataset B data =
     (if falsy data then Inr []
      else ebind (sequence (map (normalizePerson B) (container data)))
             (\<lambda>rs. Inr (filter_Boolean rs)))"

section \<open>Ancestor tree builder\<close>

text \<open>
  \<^verbatim>\<open>Map<number, NormalizedPerson>\<close> keeps its keys in insertion order, and
  \<^verbatim>\<open>set\<close> on a key already present replaces the value in place: an association
  list updated by \<open>AList.update\<close>.
\<close>

type_synonym PeopleMap = "(rat \<times> NormalizedPerson) list"

definition Map_set :: "rat \<Rightarrow> NormalizedPerson \<Rightarrow> PeopleMap \<Rightarrow> PeopleMap" where
  "Map_set k v m = AList.update k v m"

definition Map_get :: "PeopleMap \<Rightarrow> rat \<Rightarrow> NormalizedPerson option" where
  "Map_get m k = map_of m k"

definition Map_has :: "PeopleMap \<Rightarrow> rat \<Rightarrow> bool" where
  "Map_has m k = (map_of m k \<noteq> None)"

definition Map_size :: "PeopleMap \<Rightarrow> nat" where
  "Map_size m = length m"

definition Map_keys :: "PeopleMap \<Rightarrow> rat list" where
  "Map_keys m = map fst m"

definition buildMap :: "NormalizedPerson list \<Rightarrow> PeopleMap" where
  "buildMap people =
     fold (\<lambda>person m. Map_set (id_num (info person)) (NormalizedPerson (info person) []) m)
       people []"

text \<open>\<^verbatim>\<open>peopleMap.has\<close> of a computed number.\<close>

definition Map_has_num :: "PeopleMap \<Rightarrow> jsnum \<Rightarrow> bool" where
  "Map_has_num m n = (case key_of n of None \<Rightarrow> False | Some j \<Rightarrow> Map_has m j)"

text \<open>
  \<^verbatim>\<open>leftId = rootId * 2\<close> and \<^verbatim>\<open>rightId = rootId * 2 + 1\<close>, in double
  arithmetic: the product is rounded, then the sum.
\<close>

definition leftId :: "rat \<Rightarrow> jsnum" where
  "leftId rootId = round64 (rootId * 2)"

definition rightId :: "rat \<Rightarrow> jsnum" where
  "rightId rootId = (case leftId rootId of Finite l \<Rightarrow> round64 (l + 1) | n \<Rightarrow> n)"

text \<open>
  \<^verbatim>\<open>buildTree\<close> recurses on \<^verbatim>\<open>leftId\<close> and \<^verbatim>\<open>rightId\<close> with no bound of
  its own, so it is a partial function: \<open>None\<close> is a call that never returns,
  \<open>Some None\<close> is the result \<^verbatim>\<open>null\<close>. The parameter \<^verbatim>\<open>generation\<close> is
  \<open>gen\<close> here, and its default 1 is written at the call; it counts the levels from 1
  and stays a small integer, on which doubles add exactly.
\<close>

partial_function (option) buildTree ::
  "rat \<Rightarrow> PeopleMap \<Rightarrow> rat \<Rightarrow> NormalizedPerson option option" where
  "buildTree rootId peopleMap gen =
     (case Map_get peopleMap rootId of
        None \<Rightarrow> Some None
      | Some node \<Rightarrow>
          Option.bind
            (if Map_has_num peopleMap (leftId rootId)
             then (case key_of (leftId rootId) of
                     None \<Rightarrow> Some None
                   | Some l \<Rightarrow> buildTree l peopleMap (gen + 1))
             else Some None)
            (\<lambda>left.
          Option.bind
            (if Map_has_num peopleMap (rightId rootId)
             then (case key_of (rightId rootId) of
                     None \<Rightarrow> Some None
                   | Some r \<Rightarrow> buildTree r peopleMap (gen + 1))
             else Some None)
            (\<lambda>right.
          Some (Some (NormalizedPerson
            ((info node)\<lparr>generation :=
               (case generation (info node) of None \<Rightarrow> Some gen | Some g \<Rightarrow> Some g)\<rparr>)
            (filter_Boolean [left, right]))))))"

declare buildTree.simps [code]

text \<open>The call for a computed number, which is a key of the map or not.\<close>

definition buildAt :: "jsnum \<Rightarrow> PeopleMap \<Rightarrow> rat \<Rightarrow> NormalizedPerson option option" where
  "buildAt n m g = (case key_of n of None \<Rightarrow> Some None | Some j \<Rightarrow> buildTree j m g)"

text \<open>
  \<^verbatim>\<open>findRootId\<close>. \<^verbatim>\<open>Math.min(...keys)\<close> passes every key as an argument of one
  call, which the engine refuses with a RangeError beyond its limit.
\<close>

definition findRootId :: "builtins \<Rightarrow> PeopleMap \<Rightarrow> exn + rat option" where
  "findRootId B peopleMap =
     (if Map_size peopleMap = 0 then Inr None
      else if Map_has peopleMap 1 then Inr (Some 1)
      else if maxArguments B < length (Map_keys peopleMap) then Inl RangeError
      else Inr (Some (Min (set (Map_keys peopleMap)))))"

section \<open>Disclosure state\<close>

datatype OverrideState = Expand | Collapse

type_synonym Overrides = "rat \<Rightarrow> OverrideState option"

definition DEFAULT_DEPTH :: int where
  "DEFAULT_DEPTH = 4"

definition hasChildren :: "NormalizedPerson \<Rightarrow> bool" where
  "hasChildren node = (length (children node) > 0)"

definition effectiveDepth :: "NormalizedPerson \<Rightarrow> int \<Rightarrow> Overrides \<Rightarrow> int" where
  "effectiveDepth node incomingDepth overrides =
     (case overrides (id_num (info node)) of
        Some Collapse \<Rightarrow> 1
      | Some Expand \<Rightarrow> DEFAULT_DEPTH
      | None \<Rightarrow> max incomingDepth 1)"

definition showChildren :: "NormalizedPerson \<Rightarrow> int \<Rightarrow> Overrides \<Rightarrow> bool" where
  "showChildren node incomingDepth overrides =
     (hasChildren node \<and> effectiveDepth node incomingDepth overrides > 1)"

definition childDepth :: "NormalizedPerson \<Rightarrow> int \<Rightarrow> Overrides \<Rightarrow> int" where
  "childDepth node incomingDepth overrides =
     max (effectiveDepth node incomingDepth overrides - 1) 0"

text \<open>
  \<^verbatim>\<open>toggle\<close>: \<open>isOpen\<close> is read from the overrides the card was rendered with,
  the write goes into the state \<open>prev\<close> the updater receives.
\<close>

definition toggle :: "NormalizedPerson \<Rightarrow> int \<Rightarrow> Overrides \<Rightarrow> Overrides \<Rightarrow> Overrides" where
  "toggle node incomingDepth overrides prev =
     prev(id_num (info node) \<mapsto>
       (if showChildren node incomingDepth overrides then Collapse else Expand))"

text \<open>
  What \<^verbatim>\<open>PersonCard\<close> renders: the card of the node, whether it is open, and the
  cards of the children when they are shown, each with the budget \<open>childDepth\<close>.
\<close>

datatype Card = Card (card_id: rat) (isOpen: bool) (shown: "Card list")

fun PersonCard :: "NormalizedPerson \<Rightarrow> int \<Rightarrow> Overrides \<Rightarrow> Card" where
  "PersonCard (NormalizedPerson f cs) incomingDepth overrides =
     Card (id_num f)
       (showChildren (NormalizedPerson f cs) incomingDepth overrides)
       (if showChildren (NormalizedPerson f cs) incomingDepth overrides
        then map (\<lambda>child. PersonCard child
                    (childDepth (NormalizedPerson f cs) incomingDepth overrides) overrides) cs
        else [])"

fun card_ids :: "Card \<Rightarrow> rat list" where
  "card_ids (Card i b cs) = i # concat (map card_ids cs)"

section \<open>Load\<close>

text \<open>
  The application state of \<^verbatim>\<open>App\<close>, and what \<^verbatim>\<open>fetch\<close> hands to
  \<^verbatim>\<open>loadFile\<close>: a rejected promise, or a response whose body parses as JSON or
  does not (\<open>json = None\<close>). The error string is modelled by what produced it,
  \<open>None\<close> being the empty string.
\<close>

datatype Response = Response (ok: bool) (status: nat) (json: "jsval option")

datatype Fetched = Rejected | Fulfilled Response

datatype Message =
    CannotOpen string nat
  | NoValidEntry
  | NoRoot
  | TreeNotBuilt
  | FetchFailed
  | Thrown exn

record AppState =
  tree :: "NormalizedPerson option"
  peopleCount :: nat
  loading :: bool
  error :: "Message option"
  overrides :: Overrides

text \<open>
  The body of the \<^verbatim>\<open>try\<close> block: the message of what it throws, or the three
  values it sets. A recursion of \<^verbatim>\<open>buildTree\<close> that never returns exhausts the
  call stack, which the engine raises as a RangeError inside the block.
  \<^verbatim>\<open>!rootId\<close> holds of \<^verbatim>\<open>null\<close> and of the number 0.
\<close>

definition loadTry ::
  "builtins \<Rightarrow> string \<Rightarrow> Fetched \<Rightarrow> Message + (rat \<times> nat \<times> NormalizedPerson)" where
  "loadTry B path fetched =
     (case fetched of
        Rejected \<Rightarrow> Inl FetchFailed
      | Fulfilled response \<Rightarrow>
          if \<not> ok response then Inl (CannotOpen path (status response))
          else
            (case json response of
               None \<Rightarrow> Inl (Thrown SyntaxError)
             | Some data \<Rightarrow>
                 (case normalizeDataset B data of
                    Inl e \<Rightarrow> Inl (Thrown e)
                  | Inr people \<Rightarrow>
                      if length people = 0 then Inl NoValidEntry
                      else
                        (case findRootId B (buildMap people) of
                           Inl e \<Rightarrow> Inl (Thrown e)
                         | Inr None \<Rightarrow> Inl NoRoot
                         | Inr (Some rootId) \<Rightarrow>
                             if rootId = 0 then Inl NoRoot
                             else
                               (case buildTree rootId (buildMap people) 1 of
                                  None \<Rightarrow> Inl (Thrown RangeError)
                                | Some None \<Rightarrow> Inl TreeNotBuilt
                                | Some (Some treeBuilt) \<Rightarrow>
                                    Inr (rootId, length people, treeBuilt))))))"

text \<open>
  \<^verbatim>\<open>loadFile\<close>, from the state it is called in to the state after its
  \<^verbatim>\<open>finally\<close> block.
\<close>

definition loadFile :: "builtins \<Rightarrow> string \<Rightarrow> Fetched \<Rightarrow> AppState \<Rightarrow> AppState" where
  "loadFile B path fetched s =
     (case loadTry B path fetched of
        Inl msg \<Rightarrow>
          s\<lparr>loading := False, error := Some msg, tree := None\<rparr>
      | Inr (rootId, n, treeBuilt) \<Rightarrow>
          s\<lparr>loading := False, error := None, tree := Some treeBuilt, peopleCount := n,
            overrides := [rootId \<mapsto> Expand]\<rparr>)"

text \<open>
  The two events that write the state: a load, and a click on a card rendered from the
  current state.
\<close>

datatype Event = Load string Fetched | Toggle NormalizedPerson int

definition step :: "builtins \<Rightarrow> AppState \<Rightarrow> Event \<Rightarrow> AppState" where
  "step B s ev =
     (case ev of
        Load path fetched \<Rightarrow> loadFile B path fetched s
      | Toggle node incomingDepth \<Rightarrow>
          s\<lparr>overrides := toggle node incomingDepth (overrides s) (overrides s)\<rparr>)"

section \<open>Properties stated over raw records\<close>






section \<open>Properties stated over built trees\<close>

text \<open>The keys among \<^verbatim>\<open>leftId\<close>, \<^verbatim>\<open>rightId\<close> of \<open>k\<close> that the map has.\<close>

definition childKeys :: "PeopleMap \<Rightarrow> rat \<Rightarrow> rat list" where
  "childKeys m k = filter (Map_has m) (List.map_filter key_of [leftId k, rightId k])"

text \<open>
  The generations of a tree built for key \<open>k\<close> with inherited generation \<open>g\<close>:
  the node carries the stored generation of its entity, or \<open>g\<close> when the entity has
  none, and the children, built for the keys among \<^verbatim>\<open>leftId\<close>, \<^verbatim>\<open>rightId\<close> that
  the map has, inherit \<open>g + 1\<close>.
\<close>

fun generations_inherited :: "PeopleMap \<Rightarrow> rat \<Rightarrow> rat \<Rightarrow> NormalizedPerson \<Rightarrow> bool" where
  "generations_inherited m k g (NormalizedPerson f cs) =
     (case Map_get m k of
        None \<Rightarrow> False
      | Some node \<Rightarrow>
          generation f = (case generation (info node) of Some s \<Rightarrow> Some s | None \<Rightarrow> Some g)
          \<and> list_all2 (\<lambda>c child. generations_inherited m c (g + 1) child)
                (childKeys m k) cs)"

text \<open>
  The other reading, in which a child without a stored generation gets the generation
  of its parent node plus one.
\<close>

fun generations_from_parent :: "PeopleMap \<Rightarrow> rat \<Rightarrow> rat \<Rightarrow> NormalizedPerson \<Rightarrow> bool" where
  "generations_from_parent m k g (NormalizedPerson f cs) =
     (case Map_get m k of
        None \<Rightarrow> False
      | Some node \<Rightarrow>
          generation f = (case generation (info node) of Some s \<Rightarrow> Some s | None \<Rightarrow> Some g)
          \<and> (case generation f of
                None \<Rightarrow> False
              | Some pg \<Rightarrow>
                  list_all2 (\<lambda>c child. generations_from_parent m c (pg + 1) child)
                    (childKeys m k) cs))"

section \<open>Values for closed examples\<close>

text \<open>
  An instance of the parameters, for closed examples. No example below depends on it:
  none converts a string to a number or a number to a string, and none has a map of
  more than a few keys.
\<close>

definition sampleBuiltins :: builtins where
  "sampleBuiltins =
     \<lparr>StringToNumber = (\<lambda>s. NaN), NumberToString = (\<lambda>n. []), maxArguments = 65535\<rparr>"

text \<open>The entity with a given id and stored generation, every other field empty.\<close>

definition entity :: "rat \<Rightarrow> rat option \<Rightarrow> NormalizedPerson" where
  "entity i g =
     NormalizedPerson
       \<lparr>id_num = i, generation = g, gender = None, name = [], birthDate = [],
        birthPlace = [], spouse = [], unionDate = [], unionPlace = [], childrenCount = [],
        deathDate = [], deathPlace = [], deathAge = [], job = []\<rparr> []"

text \<open>The JSON record \<^verbatim>\<open>{"id": v}\<close>.\<close>

definition idRecord :: "jsval \<Rightarrow> jsval" where
  "idRecord v = JObject [(''id'', v)]"

text \<open>Two records with the same id and different stored generations.\<close>

definition twins :: jsval where
  "twins =
     JArray [JObject [(''id'', JNumber (Finite 1)), (''generation'', JNumber (Finite 5))],
             JObject [(''id'', JNumber (Finite 1)), (''generation'', JNumber (Finite 9))]]"

text \<open>A node with one child, for a card rendered with an exhausted budget.\<close>

definition hidden_parent :: NormalizedPerson where
  "hidden_parent = NormalizedPerson (info (entity 16 None)) [entity 32 None]"

text \<open>
  The tree of the entities 1 and 2, and the response whose body is
  \<^verbatim>\<open>[{"id": 1}, {"id": 2}]\<close>.
\<close>

definition pair_tree :: NormalizedPerson where
  "pair_tree = NormalizedPerson (info (entity 1 (Some 1))) [entity 2 (Some 2)]"

definition pair_response :: Fetched where
  "pair_response =
     Fulfilled (Response True 200
       (Some (JArray [idRecord (JNumber (Finite 1)), idRecord (JNumber (Finite 2))])))"





text \<open>The state \<^verbatim>\<open>App\<close> starts in.\<close>

definition initialState :: AppState where
  "initialState =
     \<lparr>tree = None, peopleCount = 0, loading = False, error = None, overrides = Map.empty\<rparr>"


section \<open>Facts of double arithmetic\<close>

lemma two_powi_nat: "0 \<le> n \<Longrightarrow> (2::rat) powi n = 2 ^ nat n"
  by (simp add: power_int_nonneg_exp)

lemma floorlog2_bounds:
  assumes "0 < a"
  shows "2 powi floorlog2 a \<le> a" and "a < 2 powi (floorlog2 a + 1)"
proof -
  show "2 powi floorlog2 a \<le> a"
  proof (cases "1 \<le> a")
    case True
    then have pos: "0 < \<lfloor>a\<rfloor>" by linarith
    from bitlen_bounds[OF pos] have "2 ^ nat (bitlen \<lfloor>a\<rfloor> - 1) \<le> \<lfloor>a\<rfloor>" by simp
    then have "(of_int (2 ^ nat (bitlen \<lfloor>a\<rfloor> - 1)) :: rat) \<le> of_int \<lfloor>a\<rfloor>"
      by (simp only: of_int_le_iff)
    also have "\<dots> \<le> a" by simp
    finally have "(2::rat) ^ nat (bitlen \<lfloor>a\<rfloor> - 1) \<le> a" by simp
    moreover have "0 \<le> bitlen \<lfloor>a\<rfloor> - 1"
      using pos by (simp add: bitlen_alt_def)
    ultimately show ?thesis using True by (simp add: floorlog2_def two_powi_nat)
  next
    case False
    define n where "n = \<lceil>1 / a\<rceil> - 1"
    define M where "M = bitlen n"
    have b: "1 < 1 / a" using False assms by (simp add: field_simps)
    then have npos: "0 < n" unfolding n_def by linarith
    from bitlen_bounds[OF npos] have "n < 2 ^ nat M" by (simp add: M_def)
    then have "n + 1 \<le> 2 ^ nat M" by simp
    then have "(of_int (n + 1) :: rat) \<le> of_int (2 ^ nat M)" by (simp only: of_int_le_iff)
    moreover have "1 / a \<le> of_int (n + 1)" unfolding n_def by simp
    ultimately have "1 / a \<le> 2 ^ nat M" by simp
    then have "1 / 2 ^ nat M \<le> a" using assms by (simp add: field_simps)
    moreover have "(2::rat) powi (- M) = 1 / 2 ^ nat M"
      using bitlen_nonneg[of n] by (simp add: M_def power_int_minus_divide two_powi_nat)
    ultimately show ?thesis using False by (simp add: floorlog2_def n_def M_def)
  qed
  show "a < 2 powi (floorlog2 a + 1)"
  proof (cases "1 \<le> a")
    case True
    then have pos: "0 < \<lfloor>a\<rfloor>" by linarith
    from bitlen_bounds[OF pos] have "\<lfloor>a\<rfloor> < 2 ^ nat (bitlen \<lfloor>a\<rfloor>)" by simp
    then have "\<lfloor>a\<rfloor> + 1 \<le> 2 ^ nat (bitlen \<lfloor>a\<rfloor>)" by simp
    then have "(of_int (\<lfloor>a\<rfloor> + 1) :: rat) \<le> of_int (2 ^ nat (bitlen \<lfloor>a\<rfloor>))"
      by (simp only: of_int_le_iff)
    moreover have "a < of_int (\<lfloor>a\<rfloor> + 1)" by simp linarith
    ultimately have "a < 2 ^ nat (bitlen \<lfloor>a\<rfloor>)" by simp
    then show ?thesis
      using True bitlen_nonneg[of "\<lfloor>a\<rfloor>"] by (simp add: floorlog2_def two_powi_nat)
  next
    case False
    define n where "n = \<lceil>1 / a\<rceil> - 1"
    define M where "M = bitlen n"
    have b: "1 < 1 / a" using False assms by (simp add: field_simps)
    then have npos: "0 < n" unfolding n_def by linarith
    have M1: "1 \<le> M" using npos by (simp add: M_def bitlen_alt_def)
    from bitlen_bounds[OF npos] have "2 ^ nat (M - 1) \<le> n" by (simp add: M_def)
    then have "(of_int (2 ^ nat (M - 1)) :: rat) \<le> of_int n" by (simp only: of_int_le_iff)
    then have "(2::rat) ^ nat (M - 1) \<le> of_int n" by simp
    also have "of_int n < 1 / a" unfolding n_def by simp linarith
    finally have "2 ^ nat (M - 1) < 1 / a" .
    then have "a < 1 / 2 ^ nat (M - 1)" using assms by (simp add: field_simps)
    moreover have "(2::rat) powi (- M + 1) = 1 / 2 ^ nat (M - 1)"
    proof -
      have "(2::rat) powi (- M + 1) = 2 powi (- (M - 1))" by simp
      also have "\<dots> = 1 / 2 powi (M - 1)" by (rule power_int_minus_divide)
      also have "\<dots> = 1 / 2 ^ nat (M - 1)" using M1 by (simp add: two_powi_nat)
      finally show ?thesis .
    qed
    ultimately show ?thesis using False by (simp add: floorlog2_def n_def M_def)
  qed
qed



lemma roundHalfEven_of_int [simp]: "roundHalfEven (of_int n) = n"
  by (simp add: roundHalfEven_def)

lemma roundHalfEven_floor: "\<lfloor>q\<rfloor> \<le> roundHalfEven q" "roundHalfEven q \<le> \<lfloor>q\<rfloor> + 1"
  by (auto simp: roundHalfEven_def Let_def)

lemma roundHalfEven_ge:
  assumes "of_int n \<le> q"
  shows "n \<le> roundHalfEven q"
proof -
  have "n \<le> \<lfloor>q\<rfloor>" using assms by (simp add: le_floor_iff)
  then show ?thesis using roundHalfEven_floor(1)[of q] by linarith
qed



lemma powi_pos [simp]: "0 < (2::rat) powi e"
  by simp








lemma magnitude_nonneg: "0 < a \<Longrightarrow> 0 \<le> magnitude a"
proof -
  assume "0 < a"
  then have "of_int 0 \<le> a / 2 powi expo a" by simp
  then have "0 \<le> roundHalfEven (a / 2 powi expo a)" by (rule roundHalfEven_ge)
  then show ?thesis by (simp add: magnitude_def)
qed



lemma magnitude_exact:
  assumes "a = of_int n * 2 powi expo a"
  shows "magnitude a = a"
proof -
  have "a / 2 powi expo a = of_int n" by (subst assms) simp
  then show ?thesis unfolding magnitude_def using assms by simp
qed




lemma magnitude_int:
  assumes "0 < n" and "n \<le> 2 ^ 53"
  shows "magnitude (of_int n) = of_int n"
proof -
  have pos: "0 < (of_int n :: rat)" using assms by simp
  have le: "(of_int n :: rat) \<le> 2 ^ 53"
  proof -
    have "(of_int n :: rat) \<le> of_int (2 ^ 53)" using assms(2) by (simp only: of_int_le_iff)
    then show ?thesis by simp
  qed
  have "(2::rat) powi floorlog2 (of_int n) \<le> 2 powi 53"
    using floorlog2_bounds(1)[OF pos] le by simp
  then have fl: "floorlog2 (of_int n) \<le> 53"
    by (metis linorder_not_le one_less_numeral_iff power_int_strict_increasing semiring_norm(76))
  show ?thesis
  proof (cases "expo (of_int n) \<le> 0")
    case True
    define d where "d = nat (- expo (of_int n))"
    have "(2::rat) powi expo (of_int n) = 1 / 2 ^ d"
      using True by (simp add: d_def power_int_def field_simps)
    then have "of_int n = of_int (n * 2 ^ d) * (2::rat) powi expo (of_int n)" by simp
    then show ?thesis by (rule magnitude_exact)
  next
    case False
    then have e: "expo (of_int n) = 1" using fl by (simp add: expo_def max_def split: if_splits)
    then have "floorlog2 (of_int n) = 53" using fl by (simp add: expo_def max_def split: if_splits)
    then have "(2::rat) ^ 53 \<le> of_int n" using floorlog2_bounds(1)[OF pos] by simp
    then have "(of_int n :: rat) = 2 ^ 53" using le by simp
    then have top: "(of_int n :: rat) = of_int (2 ^ 52) * 2" by simp
    have p: "(2::rat) powi expo (of_int n) = 2" unfolding e by simp
    have "of_int n = of_int (2 ^ 52) * (2::rat) powi expo (of_int n)"
      unfolding p by (rule top)
    then show ?thesis by (rule magnitude_exact)
  qed
qed


lemma round64_int:
  assumes "\<bar>n\<bar> \<le> 2 ^ 53"
  shows "round64 (of_int n) = Finite (of_int n)"
proof -
  have small: "\<not> (2::rat) ^ 1024 \<le> of_int m" if "0 < m" "m \<le> 2 ^ 53" for m :: int
  proof -
    have "(of_int m :: rat) \<le> of_int (2 ^ 53)" using that(2) by (simp only: of_int_le_iff)
    then have "(of_int m :: rat) \<le> 2 ^ 53" by simp
    moreover have "(2::rat) ^ 53 < 2 ^ 1024" by (intro power_strict_increasing) auto
    ultimately show ?thesis by linarith
  qed
  consider "n = 0" | "0 < n" | "n < 0" by linarith
  then show ?thesis
  proof cases
    case 1
    then show ?thesis by (simp add: round64_def)
  next
    case 2
    then have "n \<le> 2 ^ 53" using assms by simp
    with 2 show ?thesis
      using magnitude_int[of n] small[of n] by (simp add: round64_def)
  next
    case 3
    then have m: "0 < - n" "- n \<le> 2 ^ 53" using assms by simp_all
    have "magnitude (- of_int n) = - of_int n"
      using magnitude_int[OF m] by simp
    then show ?thesis
      using 3 small[OF m] by (simp add: round64_def)
  qed
qed

lemma round64_pos:
  assumes "0 < a"
  shows "round64 a = PosInfinity \<or> (\<exists>r. round64 a = Finite r \<and> 0 \<le> r)"
  using assms magnitude_nonneg[OF assms] by (simp add: round64_def)




section \<open>The normalizer accepts every finite number as an id\<close>

lemmas normalize_defs =
  normalizeDataset_def container_def normalizePerson_def parseIds_def parseId_def
  nullish_def ebind_def fieldMap_name_def fieldMap_birthDate_def fieldMap_birthPlace_def
  fieldMap_spouse_def fieldMap_unionDate_def fieldMap_unionPlace_def
  fieldMap_childrenCount_def fieldMap_deathDate_def fieldMap_deathPlace_def
  fieldMap_deathAge_def fieldMap_job_def idRecord_def

lemma normalizePerson_idRecord:
  "normalizePerson B (idRecord (JNumber (Finite r))) = Inr (Some (entity r None))"
  by (simp add: normalize_defs entity_def)

lemma normalizeDataset_single:
  "normalizeDataset B (JArray [idRecord (JNumber (Finite r))]) = Inr [entity r None]"
  by (simp add: normalizeDataset_def container_def ebind_def normalizePerson_idRecord)

text \<open>
  C10. The normalizer keeps any finite number as an id: the record list
  \<^verbatim>\<open>[{id: r}]\<close> yields one entity whose id is \<open>r\<close>, for every finite \<open>r\<close>; in
  particular for \<open>0\<close>, \<open>-1\<close> and \<open>2.5\<close>.
\<close>

theorem normalizer_keeps_any_finite_id:
  "(\<exists>p. normalizeDataset B (JArray [idRecord (JNumber (Finite r))]) = Inr [p]
        \<and> id_num (info p) = r)
   \<and> (\<exists>p. normalizeDataset B (JArray [idRecord (JNumber (Finite 0))]) = Inr [p]
        \<and> id_num (info p) = 0)
   \<and> (\<exists>p. normalizeDataset B (JArray [idRecord (JNumber (Finite (- 1)))]) = Inr [p]
        \<and> id_num (info p) = - 1)
   \<and> (\<exists>p. normalizeDataset B (JArray [idRecord (JNumber (Finite (5 / 2)))]) = Inr [p]
        \<and> id_num (info p) = 5 / 2)"
  by (simp add: normalizeDataset_single entity_def)

section \<open>Tree construction\<close>

lemmas map_defs = buildMap_def Map_set_def Map_get_def Map_has_def Map_size_def Map_keys_def
  Map_has_num_def

text \<open>Small integers are doubles, and the children of a small key are computed exactly.\<close>

lemma round64_numeral:
  "(numeral w :: int) \<le> 2 ^ 53 \<Longrightarrow> round64 (numeral w) = Finite (numeral w)"
  using round64_int[of "numeral w"] by simp

lemma round64_neg_numeral:
  "(numeral w :: int) \<le> 2 ^ 53 \<Longrightarrow> round64 (- numeral w) = Finite (- numeral w)"
  using round64_int[of "- numeral w"] by simp

lemma round64_zero: "round64 0 = Finite 0"
  by (simp add: round64_def)

lemma round64_one: "round64 1 = Finite 1"
  using round64_int[of 1] by simp

lemma round64_minus_one: "round64 (- 1) = Finite (- 1)"
  using round64_int[of "- 1"] by simp

lemmas round64_small =
  round64_numeral round64_neg_numeral round64_zero round64_one round64_minus_one

lemmas child_defs = leftId_def rightId_def round64_small

lemma Map_has_iff: "Map_has m k \<longleftrightarrow> k \<in> fst ` set m"
  by (simp add: Map_has_def map_of_eq_None_iff)

lemma buildTree_absent: "\<not> Map_has m k \<Longrightarrow> buildTree k m g = Some None"
  by (subst buildTree.simps) (simp add: Map_has_def Map_get_def)

lemma buildAt_absent: "\<not> Map_has_num m n \<Longrightarrow> buildAt n m g = Some None"
  by (auto simp: buildAt_def Map_has_num_def buildTree_absent split: option.splits)

text \<open>
  The test \<^verbatim>\<open>peopleMap.has\<close> before each recursive call changes nothing: on a key
  the map does not have, the call returns \<^verbatim>\<open>null\<close> at once.
\<close>

lemma buildTree_unfold:
  "buildTree k m g =
     (case Map_get m k of
        None \<Rightarrow> Some None
      | Some node \<Rightarrow>
          Option.bind (buildAt (leftId k) m (g + 1)) (\<lambda>left.
          Option.bind (buildAt (rightId k) m (g + 1)) (\<lambda>right.
          Some (Some (NormalizedPerson
            ((info node)\<lparr>generation :=
               (case generation (info node) of None \<Rightarrow> Some g | Some s \<Rightarrow> Some s)\<rparr>)
            (filter_Boolean [left, right]))))))"
proof -
  have a: "(if Map_has_num m n
            then (case key_of n of None \<Rightarrow> Some None | Some j \<Rightarrow> buildTree j m g')
            else Some None) = buildAt n m g'" for n g'
    by (simp add: buildAt_absent) (simp add: buildAt_def)
  show ?thesis
    by (subst buildTree.simps) (simp only: a)
qed

lemma buildTree_null_iff:
  assumes "buildTree k m g = Some y"
  shows "y = None \<longleftrightarrow> \<not> Map_has m k"
  using assms
  by (subst (asm) buildTree_unfold)
     (auto simp: Map_has_def Map_get_def split: option.splits Option.bind_splits)

lemma buildAt_null_iff:
  assumes "buildAt n m g = Some y"
  shows "y = None \<longleftrightarrow> \<not> Map_has_num m n"
  using assms buildTree_null_iff
  by (auto simp: buildAt_def Map_has_num_def split: option.splits)

subsection \<open>Keys on which the recursion calls itself\<close>




subsection \<open>Keys on which the recursion moves on\<close>








subsection \<open>Keys from \<open>2^52\<close> on\<close>















section \<open>Termination of the tree construction\<close>





section \<open>Generations\<close>

text \<open>What a successful \<^verbatim>\<open>try\<close> block of \<^verbatim>\<open>loadFile\<close> has computed.\<close>

lemma loadTry_success:
  "loadTry B path fetched = Inr (r, n, t) \<longleftrightarrow>
     (\<exists>st data people. fetched = Fulfilled (Response True st (Some data))
        \<and> normalizeDataset B data = Inr people \<and> people \<noteq> []
        \<and> findRootId B (buildMap people) = Inr (Some r) \<and> r \<noteq> 0
        \<and> buildTree r (buildMap people) 1 = Some (Some t) \<and> n = length people)"
proof (cases fetched)
  case Rejected
  then show ?thesis by (simp add: loadTry_def)
next
  case (Fulfilled response)
  obtain b st j where response: "response = Response b st j" by (cases response)
  show ?thesis
    unfolding Fulfilled response loadTry_def
    by (auto split: option.splits sum.splits)
qed

lemma childKeys_append:
  "childKeys m k = filter (Map_has m) (List.map_filter key_of [leftId k])
                     @ filter (Map_has m) (List.map_filter key_of [rightId k])"
  by (simp add: childKeys_def List.map_filter_def)

lemma child_present:
  assumes "buildAt n m g = Some (Some a)"
  shows "\<exists>j. filter (Map_has m) (List.map_filter key_of [n]) = [j]
              \<and> buildTree j m g = Some (Some a)"
proof -
  from assms obtain j where n: "n = Finite j" and b: "buildTree j m g = Some (Some a)"
    by (cases n) (simp_all add: buildAt_def)
  from buildTree_null_iff[OF b] have "Map_has m j" by simp
  with n b show ?thesis by (simp add: List.map_filter_def)
qed

lemma child_absent:
  assumes "buildAt n m g = Some None"
  shows "filter (Map_has m) (List.map_filter key_of [n]) = []"
  using buildAt_null_iff[OF assms]
  by (cases n) (simp_all add: List.map_filter_def Map_has_num_def)

lemma buildTree_generations:
  "buildTree k m g = Some (Some t) \<Longrightarrow> generations_inherited m k g t"
proof (induction t arbitrary: k g)
  case (NormalizedPerson f cs)
  from NormalizedPerson.prems obtain node l r where
    node: "Map_get m k = Some node" and
    l: "buildAt (leftId k) m (g + 1) = Some l" and
    r: "buildAt (rightId k) m (g + 1) = Some r" and
    f: "f = (info node)\<lparr>generation :=
          (case generation (info node) of None \<Rightarrow> Some g | Some s \<Rightarrow> Some s)\<rparr>" and
    cs0: "cs = filter_Boolean [l, r]"
    by (subst (asm) buildTree_unfold) (auto split: option.splits Option.bind_splits)
  have cs: "cs = filter_Boolean [l] @ filter_Boolean [r]"
    unfolding cs0 by (cases l; cases r) simp_all
  have side: "list_all2 (\<lambda>c child. generations_inherited m c (g + 1) child)
                (filter (Map_has m) (List.map_filter key_of [n])) (filter_Boolean [x])"
    if x: "buildAt n m (g + 1) = Some x" and sub: "set (filter_Boolean [x]) \<subseteq> set cs" for n x
  proof (cases x)
    case None
    then show ?thesis using child_absent x by simp
  next
    case (Some a)
    with child_present x obtain j where
      j: "filter (Map_has m) (List.map_filter key_of [n]) = [j]"
      and b: "buildTree j m (g + 1) = Some (Some a)" by blast
    have "a \<in> set cs" using sub Some by simp
    then have "generations_inherited m j (g + 1) a"
      using NormalizedPerson.IH b by blast
    then show ?thesis using j Some by simp
  qed
  have kids: "list_all2 (\<lambda>c child. generations_inherited m c (g + 1) child) (childKeys m k) cs"
    unfolding childKeys_append cs
    by (intro list_all2_appendI side l r) (simp_all add: cs)
  show ?case using node f kids by (auto split: option.splits)
qed

lemma buildTree_stored_generation:
  "buildTree 1 (buildMap [entity 1 None, entity 2 (Some 7), entity 4 None]) 1 =
     Some (Some (NormalizedPerson (info (entity 1 (Some 1)))
       [NormalizedPerson (info (entity 2 (Some 7))) [entity 4 (Some 3)]]))"
  by (simp add: buildTree.simps map_defs child_defs entity_def)

text \<open>
  C4, amended. In every tree that \<^verbatim>\<open>buildTree\<close> returns, a node whose entity carries
  a stored generation has that generation, and a node whose entity has none has the
  inherited one: the generation the root call was given (1 in \<^verbatim>\<open>loadFile\<close>) plus its
  depth below the root, whatever generations the nodes above it store.
\<close>

theorem buildTree_generation:
  "(buildTree k m g = Some (Some t) \<longrightarrow> generations_inherited m k g t)
   \<and> (normalizeDataset B data = Inr people
        \<and> loadTry B path (Fulfilled (Response True st (Some data))) = Inr (r, n, t')
      \<longrightarrow> generations_inherited (buildMap people) r 1 t')"
  by (auto simp: loadTry_success intro: buildTree_generations)

theorem buildTree_generation_witness:
  "buildTree 1 (buildMap [entity 1 None, entity 2 (Some 7), entity 4 None]) 1 =
     Some (Some (NormalizedPerson (info (entity 1 (Some 1)))
       [NormalizedPerson (info (entity 2 (Some 7))) [entity 4 (Some 3)]]))
   \<and> generations_inherited (buildMap [entity 1 None, entity 2 (Some 7), entity 4 None]) 1 1
       (NormalizedPerson (info (entity 1 (Some 1)))
          [NormalizedPerson (info (entity 2 (Some 7))) [entity 4 (Some 3)]])"
  using buildTree_generation[of 1 "buildMap [entity 1 None, entity 2 (Some 7), entity 4 None]" 1
      "NormalizedPerson (info (entity 1 (Some 1)))
         [NormalizedPerson (info (entity 2 (Some 7))) [entity 4 (Some 3)]]"]
    buildTree_stored_generation
  by blast

text \<open>
  The claim as it stands, with the generation of the parent node plus one, fails under a
  parent that stores a generation: entity 1 stores generation 10, entity 2 stores none,
  and the node built for 2 has generation 2, not 11.
\<close>

theorem buildTree_generation_counterexample:
  "buildTree 1 (buildMap [entity 1 (Some 10), entity 2 None]) 1
     = Some (Some (NormalizedPerson (info (entity 1 (Some 10))) [entity 2 (Some 2)]))
   \<and> \<not> generations_from_parent (buildMap [entity 1 (Some 10), entity 2 None]) 1 1
         (NormalizedPerson (info (entity 1 (Some 10))) [entity 2 (Some 2)])"
  by (simp add: buildTree.simps map_defs child_defs childKeys_def List.map_filter_def entity_def)

section \<open>The keyed map\<close>

lemma find_append_first:
  "find P (xs @ ys) = (case find P xs of None \<Rightarrow> find P ys | Some x \<Rightarrow> Some x)"
  by (induction xs) simp_all

lemma Map_set_map_of: "map_of (Map_set k v m) = (map_of m)(k \<mapsto> v)"
  by (simp add: Map_set_def update_conv')

lemma Map_set_keys: "fst ` set (Map_set k v m) = insert k (fst ` set m)"
  by (simp add: Map_set_def dom_update)

lemma Map_set_distinct: "distinct (map fst m) \<Longrightarrow> distinct (map fst (Map_set k v m))"
  by (simp add: Map_set_def distinct_update)

lemma fold_set_map_of:
  "map_of (fold (\<lambda>person m. Map_set (id_num (info person)) (NormalizedPerson (info person) []) m) people m0) k =
     (case find (\<lambda>p. id_num (info p) = k) (rev people) of
        Some p \<Rightarrow> Some (NormalizedPerson (info p) [])
      | None \<Rightarrow> map_of m0 k)"
proof (induction people arbitrary: m0)
  case Nil
  then show ?case by simp
next
  case (Cons p ps)
  show ?case
    by (simp add: Cons.IH Map_set_map_of find_append_first split: option.splits)
qed

lemma buildMap_get:
  "Map_get (buildMap people) k =
     map_option (\<lambda>p. NormalizedPerson (info p) []) (find (\<lambda>p. id_num (info p) = k) (rev people))"
  by (simp add: buildMap_def Map_get_def fold_set_map_of split: option.splits)

lemma fold_set_keys:
  "fst ` set (fold (\<lambda>person m. Map_set (id_num (info person)) (NormalizedPerson (info person) []) m) people m0)
     = fst ` set m0 \<union> (\<lambda>p. id_num (info p)) ` set people"
  by (induction people arbitrary: m0) (auto simp: Map_set_keys)

lemma fold_set_distinct:
  "distinct (map fst m0) \<Longrightarrow>
   distinct (map fst (fold (\<lambda>person m. Map_set (id_num (info person)) (NormalizedPerson (info person) []) m) people m0))"
  by (induction people arbitrary: m0) (simp_all add: Map_set_distinct)

lemma buildMap_keys: "set (Map_keys (buildMap people)) = (\<lambda>p. id_num (info p)) ` set people"
  using fold_set_keys[of people "[]"] by (simp add: buildMap_def Map_keys_def)

lemma buildMap_distinct: "distinct (Map_keys (buildMap people))"
  using fold_set_distinct[of "[]" people] by (simp add: buildMap_def Map_keys_def)

lemma buildMap_size: "Map_size (buildMap people) = card ((\<lambda>p. id_num (info p)) ` set people)"
proof -
  have "card (set (Map_keys (buildMap people))) = length (Map_keys (buildMap people))"
    using buildMap_distinct by (rule distinct_card)
  moreover have "length (Map_keys (buildMap people)) = Map_size (buildMap people)"
    by (simp add: Map_keys_def Map_size_def)
  ultimately show ?thesis by (simp add: buildMap_keys)
qed

lemma buildMap_has: "Map_has (buildMap people) k \<longleftrightarrow> k \<in> (\<lambda>p. id_num (info p)) ` set people"
  using buildMap_keys[of people] by (simp add: Map_has_iff Map_keys_def)

lemma normalizeDataset_twins:
  "normalizeDataset B twins = Inr [entity 1 (Some 5), entity 1 (Some 9)]"
  by (simp add: twins_def normalize_defs entity_def)

text \<open>
  C9. \<^verbatim>\<open>buildMap\<close> is last-write-wins: the entity stored under an id is the latest
  record of the list with that id, its children reset to empty, and the number of
  entities in the map is the number of distinct ids. Of two records with the id 1 the map
  keeps the second, and has one entity.
\<close>

theorem buildMap_last_write_wins:
  "Map_get (buildMap people) k
     = map_option (\<lambda>p. NormalizedPerson (info p) [])
         (find (\<lambda>p. id_num (info p) = k) (rev people))
   \<and> Map_size (buildMap people) = card ((\<lambda>p. id_num (info p)) ` set people)
   \<and> normalizeDataset B twins = Inr [entity 1 (Some 5), entity 1 (Some 9)]
   \<and> Map_get (buildMap [entity 1 (Some 5), entity 1 (Some 9)]) 1 = Some (entity 1 (Some 9))
   \<and> Map_size (buildMap [entity 1 (Some 5), entity 1 (Some 9)]) = 1"
proof (intro conjI)
  show "Map_get (buildMap people) k
     = map_option (\<lambda>p. NormalizedPerson (info p) [])
         (find (\<lambda>p. id_num (info p) = k) (rev people))"
    by (rule buildMap_get)
  show "Map_size (buildMap people) = card ((\<lambda>p. id_num (info p)) ` set people)"
    by (rule buildMap_size)
  show "normalizeDataset B twins = Inr [entity 1 (Some 5), entity 1 (Some 9)]"
    by (rule normalizeDataset_twins)
  show "Map_get (buildMap [entity 1 (Some 5), entity 1 (Some 9)]) 1 = Some (entity 1 (Some 9))"
    by (simp add: map_defs entity_def)
  show "Map_size (buildMap [entity 1 (Some 5), entity 1 (Some 9)]) = 1"
    by (simp add: map_defs entity_def)
qed

section \<open>Root selection\<close>

lemma findRootId_None: "findRootId B m = Inr None \<longleftrightarrow> Map_size m = 0"
  by (simp add: findRootId_def)

lemma findRootId_one: "Map_has m 1 \<Longrightarrow> findRootId B m = Inr (Some 1)"
  by (auto simp: findRootId_def Map_size_def Map_has_def)

lemma findRootId_min:
  assumes "Map_size m \<noteq> 0" and "\<not> Map_has m 1" and "length (Map_keys m) \<le> maxArguments B"
  shows "\<exists>r. findRootId B m = Inr (Some r) \<and> Map_has m r \<and> (\<forall>k. Map_has m k \<longrightarrow> r \<le> k)"
proof -
  have ne: "set (Map_keys m) \<noteq> {}" using assms(1) by (simp add: Map_size_def Map_keys_def)
  have "Min (set (Map_keys m)) \<in> set (Map_keys m)" using ne by (intro Min_in) auto
  moreover have "\<forall>k \<in> set (Map_keys m). Min (set (Map_keys m)) \<le> k" by simp
  ultimately show ?thesis
    using assms by (auto simp: findRootId_def Map_has_iff Map_keys_def)
qed

lemma findRootId_RangeError:
  "findRootId B m = Inl e \<longleftrightarrow>
     e = RangeError \<and> Map_size m \<noteq> 0 \<and> \<not> Map_has m 1 \<and> maxArguments B < length (Map_keys m)"
  by (auto simp: findRootId_def)

lemma loadTry_NoRoot:
  assumes "normalizeDataset B data = Inr people" and "people \<noteq> []"
  shows "loadTry B path (Fulfilled (Response True st (Some data))) = Inl NoRoot
           \<longleftrightarrow> findRootId B (buildMap people) = Inr (Some 0)"
proof -
  have "Map_size (buildMap people) \<noteq> 0"
    using assms(2) by (cases people) (simp_all add: buildMap_size)
  then have "findRootId B (buildMap people) \<noteq> Inr None" by (simp add: findRootId_None)
  then show ?thesis
    using assms by (auto simp: loadTry_def split: option.splits sum.splits)
qed

lemma findRootId_357:
  "findRootId sampleBuiltins (buildMap [entity 3 None, entity 5 None, entity 7 None]) = Inr (Some 3)"
  by (simp add: findRootId_def map_defs entity_def sampleBuiltins_def)

text \<open>
  C3, as the code has it. \<^verbatim>\<open>findRootId\<close> returns 1 when the map has the key 1,
  otherwise the least key of the map (when the keys are no more than one call takes as
  arguments), and no root exactly when the map is empty. The load, however, tests the
  root with \<^verbatim>\<open>!rootId\<close>, which holds of the number 0 as it does of \<^verbatim>\<open>null\<close>: for
  a non-empty map the load reports that no root can be determined exactly when the
  selected root is 0. The record list \<^verbatim>\<open>[{"id": 0}]\<close> gives a map of one entity,
  the root 0, and that report.
\<close>

theorem findRootId_root:
  "(Map_has m 1 \<longrightarrow> findRootId B m = Inr (Some 1))
   \<and> (Map_size m \<noteq> 0 \<and> \<not> Map_has m 1 \<and> length (Map_keys m) \<le> maxArguments B \<longrightarrow>
        (\<exists>r. findRootId B m = Inr (Some r) \<and> Map_has m r \<and> (\<forall>k. Map_has m k \<longrightarrow> r \<le> k)))
   \<and> (findRootId B m = Inr None \<longleftrightarrow> Map_size m = 0)
   \<and> (normalizeDataset B data = Inr people \<and> people \<noteq> [] \<longrightarrow>
        (loadTry B path (Fulfilled (Response True st (Some data))) = Inl NoRoot
           \<longleftrightarrow> findRootId B (buildMap people) = Inr (Some 0)))
   \<and> Map_size (buildMap [entity 0 None]) = 1
   \<and> findRootId sampleBuiltins (buildMap [entity 0 None]) = Inr (Some 0)
   \<and> loadTry sampleBuiltins ''/export/genealogy.json''
        (Fulfilled (Response True 200 (Some (JArray [idRecord (JNumber (Finite 0))]))))
      = Inl NoRoot"
proof (intro conjI)
  show "Map_has m 1 \<longrightarrow> findRootId B m = Inr (Some 1)"
    using findRootId_one by blast
  show "Map_size m \<noteq> 0 \<and> \<not> Map_has m 1 \<and> length (Map_keys m) \<le> maxArguments B \<longrightarrow>
        (\<exists>r. findRootId B m = Inr (Some r) \<and> Map_has m r \<and> (\<forall>k. Map_has m k \<longrightarrow> r \<le> k))"
    using findRootId_min by blast
  show "findRootId B m = Inr None \<longleftrightarrow> Map_size m = 0"
    by (rule findRootId_None)
  show "normalizeDataset B data = Inr people \<and> people \<noteq> [] \<longrightarrow>
        (loadTry B path (Fulfilled (Response True st (Some data))) = Inl NoRoot
           \<longleftrightarrow> findRootId B (buildMap people) = Inr (Some 0))"
    using loadTry_NoRoot by blast
  show "Map_size (buildMap [entity 0 None]) = 1"
    by (simp add: map_defs entity_def)
  show root: "findRootId sampleBuiltins (buildMap [entity 0 None]) = Inr (Some 0)"
    by (simp add: findRootId_def map_defs entity_def sampleBuiltins_def)
  show "loadTry sampleBuiltins ''/export/genealogy.json''
        (Fulfilled (Response True 200 (Some (JArray [idRecord (JNumber (Finite 0))]))))
      = Inl NoRoot"
    by (simp add: loadTry_def normalizeDataset_single root)
qed

theorem findRootId_root_witness:
  "Map_size (buildMap [entity 3 None, entity 5 None, entity 7 None]) \<noteq> 0
   \<and> \<not> Map_has (buildMap [entity 3 None, entity 5 None, entity 7 None]) 1
   \<and> length (Map_keys (buildMap [entity 3 None, entity 5 None, entity 7 None]))
        \<le> maxArguments sampleBuiltins
   \<and> findRootId sampleBuiltins (buildMap [entity 3 None, entity 5 None, entity 7 None])
        = Inr (Some 3)
   \<and> Map_has (buildMap [entity 1 None, entity 2 None, entity 3 None]) 1
   \<and> findRootId sampleBuiltins (buildMap [entity 1 None, entity 2 None, entity 3 None])
        = Inr (Some 1)
   \<and> normalizeDataset sampleBuiltins (JArray [idRecord (JNumber (Finite 3))]) = Inr [entity 3 None]
   \<and> [entity 3 None] \<noteq> []
   \<and> findRootId sampleBuiltins (buildMap [entity 3 None]) \<noteq> Inr (Some 0)
   \<and> loadTry sampleBuiltins ''/export/genealogy.json''
        (Fulfilled (Response True 200 (Some (JArray [idRecord (JNumber (Finite 3))])))) \<noteq> Inl NoRoot"
proof -
  have a: "Map_size (buildMap [entity 3 None, entity 5 None, entity 7 None]) \<noteq> 0"
    and b: "\<not> Map_has (buildMap [entity 3 None, entity 5 None, entity 7 None]) 1"
    and b': "length (Map_keys (buildMap [entity 3 None, entity 5 None, entity 7 None]))
        \<le> maxArguments sampleBuiltins"
    and c: "Map_has (buildMap [entity 1 None, entity 2 None, entity 3 None]) 1"
    and d: "findRootId sampleBuiltins (buildMap [entity 3 None]) \<noteq> Inr (Some 0)"
    by (simp_all add: findRootId_def map_defs entity_def sampleBuiltins_def)
  have e: "normalizeDataset sampleBuiltins (JArray [idRecord (JNumber (Finite 3))]) = Inr [entity 3 None]"
    by (rule normalizeDataset_single)
  show ?thesis
    using a b b' c d e findRootId_357
      findRootId_root[of "buildMap [entity 1 None, entity 2 None, entity 3 None]"
        sampleBuiltins "JArray [idRecord (JNumber (Finite 3))]" "[entity 3 None]"
        "''/export/genealogy.json''" 200]
      findRootId_root[of "buildMap [entity 3 None, entity 5 None, entity 7 None]"
        sampleBuiltins "JArray [idRecord (JNumber (Finite 3))]" "[entity 3 None]"
        "''/export/genealogy.json''" 200]
    by simp
qed

section \<open>Disclosure\<close>

lemma PersonCard_unfold:
  "PersonCard node d ov =
     Card (id_num (info node)) (showChildren node d ov)
       (if showChildren node d ov
        then map (\<lambda>child. PersonCard child (childDepth node d ov) ov) (children node)
        else [])"
  by (cases node) simp

lemma buildTree_chain:
  "buildTree 1 (buildMap (map (\<lambda>i. entity i None) [1, 2, 4, 8, 16])) 1 =
     Some (Some (NormalizedPerson (info (entity 1 (Some 1)))
       [NormalizedPerson (info (entity 2 (Some 2)))
         [NormalizedPerson (info (entity 4 (Some 3)))
           [NormalizedPerson (info (entity 8 (Some 4))) [entity 16 (Some 5)]]]]))"
  by (simp add: buildTree.simps map_defs child_defs entity_def)

lemmas disclosure_defs =
  effectiveDepth_def showChildren_def childDepth_def hasChildren_def DEFAULT_DEPTH_def

lemma chain_cards:
  "card_ids (PersonCard (NormalizedPerson (info (entity 1 (Some 1)))
       [NormalizedPerson (info (entity 2 (Some 2)))
         [NormalizedPerson (info (entity 4 (Some 3)))
           [NormalizedPerson (info (entity 8 (Some 4))) [entity 16 (Some 5)]]]]) DEFAULT_DEPTH Map.empty)
    = [1, 2, 4, 8]"
  by (simp add: disclosure_defs entity_def)

text \<open>
  C5. For a card rendered with inherited budget \<open>d\<close> under the overrides \<open>ov\<close>: the
  effective depth is 1 when the node's id is mapped to collapse, the default 4 when it is
  mapped to expand, and \<open>max d 1\<close> otherwise; the children are shown exactly when the
  node has a child and the effective depth exceeds 1; each shown child is rendered with
  the budget \<open>max (effective depth - 1) 0\<close>. With no overrides and the root budget 4,
  a chain of five nodes renders the cards of the first four and not the fifth, whatever
  lies below it; so does the chain 1, 2, 4, 8, 16 that \<^verbatim>\<open>buildTree\<close> builds.
\<close>

theorem disclosure_depth:
  "effectiveDepth node d ov =
     (case ov (id_num (info node)) of
        Some Collapse \<Rightarrow> 1 | Some Expand \<Rightarrow> 4 | None \<Rightarrow> max d 1)
   \<and> showChildren node d ov = (children node \<noteq> [] \<and> 1 < effectiveDepth node d ov)
   \<and> card_id (PersonCard node d ov) = id_num (info node)
   \<and> isOpen (PersonCard node d ov) = showChildren node d ov
   \<and> shown (PersonCard node d ov) =
       (if showChildren node d ov
        then map (\<lambda>child. PersonCard child (max (effectiveDepth node d ov - 1) 0) ov)
               (children node)
        else [])
   \<and> card_ids (PersonCard
         (NormalizedPerson f1 [NormalizedPerson f2 [NormalizedPerson f3
            [NormalizedPerson f4 [NormalizedPerson f5 cs]]]]) DEFAULT_DEPTH Map.empty)
       = [id_num f1, id_num f2, id_num f3, id_num f4]
   \<and> (\<exists>t. buildTree 1 (buildMap (map (\<lambda>i. entity i None) [1, 2, 4, 8, 16])) 1 = Some (Some t)
          \<and> card_ids (PersonCard t DEFAULT_DEPTH Map.empty) = [1, 2, 4, 8])"
proof (intro conjI)
  show "card_ids (PersonCard
         (NormalizedPerson f1 [NormalizedPerson f2 [NormalizedPerson f3
            [NormalizedPerson f4 [NormalizedPerson f5 cs]]]]) DEFAULT_DEPTH Map.empty)
       = [id_num f1, id_num f2, id_num f3, id_num f4]"
    by (simp add: disclosure_defs)
  show "effectiveDepth node d ov =
     (case ov (id_num (info node)) of
        Some Collapse \<Rightarrow> 1 | Some Expand \<Rightarrow> 4 | None \<Rightarrow> max d 1)"
    by (simp add: effectiveDepth_def DEFAULT_DEPTH_def split: option.splits OverrideState.splits)
  show "showChildren node d ov = (children node \<noteq> [] \<and> 1 < effectiveDepth node d ov)"
    by (simp add: showChildren_def hasChildren_def)
  show "card_id (PersonCard node d ov) = id_num (info node)"
    by (subst PersonCard_unfold) simp
  show "isOpen (PersonCard node d ov) = showChildren node d ov"
    by (subst PersonCard_unfold) simp
  show "shown (PersonCard node d ov) =
       (if showChildren node d ov
        then map (\<lambda>child. PersonCard child (max (effectiveDepth node d ov - 1) 0) ov)
               (children node)
        else [])"
    by (subst PersonCard_unfold) (simp add: childDepth_def)
  show "\<exists>t. buildTree 1 (buildMap (map (\<lambda>i. entity i None) [1, 2, 4, 8, 16])) 1 = Some (Some t)
          \<and> card_ids (PersonCard t DEFAULT_DEPTH Map.empty) = [1, 2, 4, 8]"
    using buildTree_chain chain_cards by blast
qed

text \<open>
  C6. The toggle of a node writes collapse under the node's id when the node shows its
  children and expand otherwise, and leaves the entry of every other id as it was. A
  node without override that does not show its children is set to expand by the toggle,
  and a second toggle, when it then shows them, sets it to collapse.
\<close>

theorem toggle_writes_one_entry:
  "toggle node d ov prev (id_num (info node))
     = Some (if showChildren node d ov then Collapse else Expand)
   \<and> (\<forall>j. j \<noteq> id_num (info node) \<longrightarrow> toggle node d ov prev j = prev j)
   \<and> (ov (id_num (info node)) = None \<and> \<not> showChildren node d ov \<longrightarrow>
        toggle node d ov ov (id_num (info node)) = Some Expand
        \<and> (showChildren node d' (toggle node d ov ov) \<longrightarrow>
             toggle node d' (toggle node d ov ov) (toggle node d ov ov) (id_num (info node))
               = Some Collapse))"
  by (simp add: toggle_def)

theorem toggle_writes_one_entry_witness:
  "(17::rat) \<noteq> id_num (info hidden_parent)
   \<and> toggle hidden_parent 0 [17 \<mapsto> Collapse] [17 \<mapsto> Collapse] 17 = Some Collapse
   \<and> Map.empty (id_num (info hidden_parent)) = None
   \<and> \<not> showChildren hidden_parent 0 Map.empty
   \<and> toggle hidden_parent 0 Map.empty Map.empty (id_num (info hidden_parent)) = Some Expand
   \<and> showChildren hidden_parent 0 (toggle hidden_parent 0 Map.empty Map.empty)
   \<and> toggle hidden_parent 0 (toggle hidden_parent 0 Map.empty Map.empty)
        (toggle hidden_parent 0 Map.empty Map.empty) (id_num (info hidden_parent)) = Some Collapse"
proof -
  have a: "(17::rat) \<noteq> id_num (info hidden_parent)"
    by (simp add: hidden_parent_def entity_def)
  have b: "\<not> showChildren hidden_parent 0 Map.empty"
    by (simp add: hidden_parent_def entity_def disclosure_defs)
  have c: "showChildren hidden_parent 0 (toggle hidden_parent 0 Map.empty Map.empty)"
    by (simp add: hidden_parent_def entity_def disclosure_defs toggle_def)
  show ?thesis
    using a b c
      toggle_writes_one_entry[of hidden_parent 0 "[17 \<mapsto> Collapse]" "[17 \<mapsto> Collapse]" 0]
      toggle_writes_one_entry[of hidden_parent 0 Map.empty Map.empty 0]
    by simp
qed

section \<open>Life cycle of the overrides\<close>

lemma buildMap_get_id:
  assumes "Map_get (buildMap people) k = Some node"
  shows "id_num (info node) = k"
proof -
  from assms obtain p where p: "find (\<lambda>p. id_num (info p) = k) (rev people) = Some p"
    and node: "node = NormalizedPerson (info p) []"
    by (auto simp: buildMap_get)
  from p have "id_num (info p) = k" by (auto simp: find_Some_iff)
  with node show ?thesis by simp
qed

lemma buildTree_root_id:
  assumes "buildTree k (buildMap people) g = Some (Some t)"
  shows "id_num (info t) = k"
proof -
  from assms obtain node where node: "Map_get (buildMap people) k = Some node"
    and "id_num (info t) = id_num (info node)"
    by (subst (asm) buildTree_unfold) (auto split: option.splits Option.bind_splits)
  with buildMap_get_id[OF node] show ?thesis by simp
qed

text \<open>
  C7. A load that yields a tree sets the overrides to the single entry of its root,
  expand, whatever they held before; a load that yields none sets no overrides. A toggle
  writes the entry of one id and removes none. Nothing else writes the overrides.
\<close>

theorem overrides_lifecycle:
  "(loadTry B path fetched = Inr (r, n, t) \<longrightarrow>
       overrides (step B s (Load path fetched)) = [r \<mapsto> Expand]
       \<and> tree (step B s (Load path fetched)) = Some t \<and> id_num (info t) = r)
   \<and> (loadTry B path fetched = Inl msg \<longrightarrow>
       overrides (step B s (Load path fetched)) = overrides s
       \<and> tree (step B s (Load path fetched)) = None)
   \<and> overrides (step B s (Toggle node d))
       = (overrides s)(id_num (info node) \<mapsto>
           (if showChildren node d (overrides s) then Collapse else Expand))
   \<and> dom (overrides (step B s (Toggle node d))) = insert (id_num (info node)) (dom (overrides s))"
proof (intro conjI impI)
  assume ok: "loadTry B path fetched = Inr (r, n, t)"
  then show "overrides (step B s (Load path fetched)) = [r \<mapsto> Expand]"
    and "tree (step B s (Load path fetched)) = Some t"
    by (simp_all add: step_def loadFile_def)
  from ok obtain people where "buildTree r (buildMap people) 1 = Some (Some t)"
    by (auto simp: loadTry_success)
  then show "id_num (info t) = r" by (rule buildTree_root_id)
next
  assume "loadTry B path fetched = Inl msg"
  then show "overrides (step B s (Load path fetched)) = overrides s"
    and "tree (step B s (Load path fetched)) = None"
    by (simp_all add: step_def loadFile_def)
next
  show "overrides (step B s (Toggle node d))
       = (overrides s)(id_num (info node) \<mapsto>
           (if showChildren node d (overrides s) then Collapse else Expand))"
    by (simp add: step_def toggle_def)
  then show "dom (overrides (step B s (Toggle node d)))
      = insert (id_num (info node)) (dom (overrides s))"
    by simp
qed

lemma normalizeDataset_pair:
  "normalizeDataset B (JArray [idRecord (JNumber (Finite 1)), idRecord (JNumber (Finite 2))])
     = Inr [entity 1 None, entity 2 None]"
  by (simp add: normalizeDataset_def container_def ebind_def normalizePerson_idRecord)

lemma loadTry_pair: "loadTry sampleBuiltins path pair_response = Inr (1, 2, pair_tree)"
proof -
  have root: "findRootId sampleBuiltins (buildMap [entity 1 None, entity 2 None]) = Inr (Some 1)"
    by (simp add: findRootId_def map_defs entity_def)
  have built: "buildTree 1 (buildMap [entity 1 None, entity 2 None]) 1 = Some (Some pair_tree)"
    by (simp add: buildTree.simps map_defs child_defs entity_def pair_tree_def)
  show ?thesis
    by (simp add: loadTry_def pair_response_def normalizeDataset_pair root built)
qed

theorem overrides_lifecycle_witness:
  "loadTry sampleBuiltins ''/export/genealogy.json'' pair_response = Inr (1, 2, pair_tree)
   \<and> overrides (step sampleBuiltins initialState (Load ''/export/genealogy.json'' pair_response))
       = [1 \<mapsto> Expand]
   \<and> loadTry sampleBuiltins ''/export/genealogy.json'' Rejected = Inl FetchFailed
   \<and> overrides (step sampleBuiltins initialState (Load ''/export/genealogy.json'' Rejected))
       = overrides initialState"
  using overrides_lifecycle[of sampleBuiltins "''/export/genealogy.json''" pair_response 1 2
      pair_tree initialState]
    overrides_lifecycle[of sampleBuiltins "''/export/genealogy.json''" Rejected _ _ _ initialState
      FetchFailed]
    loadTry_pair[of "''/export/genealogy.json''"]
  by (simp add: loadTry_def)

section \<open>What the normalizer keeps, drops and throws\<close>







































end
